theory Spec2Isabelle
  imports Complex_Main
begin

section \<open>Codec matching and the conversion facade (index.ts)\<close>

text \<open>
  JavaScript values are modelled as follows: an optional string parameter is a
  \<open>string option\<close> (\<open>None\<close> is \<open>undefined\<close>), a thrown \<open>Error\<close> is the left
  summand of a result (\<open>TypeError\<close> for the error of reading a property of
  \<open>undefined\<close> or \<open>null\<close>), and a promise is the value it resolves to. Strings are
  lists of ASCII characters.
\<close>

datatype error = Error string | TypeError

text \<open>The two options of \<open>GlobalEncodeOptions\<close> that the facade reads.\<close>

record options =
  filePath :: "string option"
  format :: "string option"

text \<open>
  The metadata of a \<open>Codec\<close> that \<open>match\<close> consults, and its two operations. Each
  metadata field may be left undefined by a codec class.
\<close>

record ('n, 'f) codec =
  fileNames :: "string list option"
  extNames :: "string list option"
  mediaTypes :: "string list option"
  sniff :: "(string \<Rightarrow> bool) option"
  codec_decode :: "'f \<Rightarrow> error + 'n"
  codec_encode :: "'n \<Rightarrow> options \<Rightarrow> error + 'f"

text \<open>An export of a codec module: a class extending \<open>Codec\<close>, or anything else.\<close>

datatype 'c export = CodecClass 'c | OtherExport

text \<open>
  What \<open>match\<close> takes from its surroundings: \<open>vfile.isPath\<close>, \<open>path.basename\<close>,
  \<open>path.extname\<close>, \<open>mime.getType\<close> (\<open>None\<close> is \<open>null\<close>) and the dynamic
  \<open>import\<close> of the module \<open>./codecs/<name>\<close> (\<open>None\<close> when the import throws,
  otherwise the exports of the module in enumeration order).
\<close>

record ('n, 'f) env =
  isPath :: "string \<Rightarrow> bool"
  basename :: "string \<Rightarrow> string"
  extname :: "string \<Rightarrow> string"
  getType :: "string \<Rightarrow> string option"
  importModule :: "string \<Rightarrow> ('n, 'f) codec export list option"

definition codecList :: "string list" where
  "codecList =
    [''http'',
     ''dir'', ''dar'',
     ''csv'', ''ods'', ''tdp'', ''xlsx'',
     ''docx'', ''gdoc'', ''html'', ''ipynb'', ''jats'', ''jats-pandoc'', ''latex'', ''md'',
     ''odt'', ''pdf'', ''txt'', ''xmd'',
     ''dmagic'',
     ''rpng'',
     ''yaml'', ''pandoc'', ''json5'', ''jsonld'', ''json'']"

text \<open>The regular expression \<open>/^https?:\/\//\<close>.\<close>

definition httpRegex :: "string \<Rightarrow> bool" where
  "httpRegex s = (take 7 s = ''http://'' \<or> take 8 s = ''https://'')"

definition codecRegexes :: "(string \<times> (string \<Rightarrow> bool)) list" where
  "codecRegexes = [(''http'', httpRegex)]"

definition isLowerAscii :: "char \<Rightarrow> bool" where
  "isLowerAscii c = (c \<in> set ''abcdefghijklmnopqrstuvwxyz'')"

text \<open>The regular expression \<open>/^[a-z]+:\/\//\<close>.\<close>

definition schemeRegex :: "string \<Rightarrow> bool" where
  "schemeRegex s = (takeWhile isLowerAscii s \<noteq> [] \<and> take 3 (dropWhile isLowerAscii s) = ''://'')"

definition toLowerChar :: "char \<Rightarrow> char" where
  "toLowerChar c =
     (case map_of (zip ''ABCDEFGHIJKLMNOPQRSTUVWXYZ'' ''abcdefghijklmnopqrstuvwxyz'') c of
        Some l \<Rightarrow> l
      | None \<Rightarrow> c)"

definition toLowerCase :: "string \<Rightarrow> string" where
  "toLowerCase s = map toLowerChar s"

text \<open>Truthiness of an optional string: defined and not empty.\<close>

definition truthy :: "string option \<Rightarrow> bool" where
  "truthy s = (case s of None \<Rightarrow> False | Some v \<Rightarrow> v \<noteq> [])"

text \<open>\<open>x || undefined\<close> for a string or \<open>null\<close>.\<close>

definition orUndefined :: "string option \<Rightarrow> string option" where
  "orUndefined s = (if truthy s then s else None)"

text \<open>The values derived from \<open>content\<close> when it is a path (first \<open>if\<close> of \<open>match\<close>).\<close>

definition derivedKeys ::
  "('n, 'f) env \<Rightarrow> string option \<Rightarrow> bool \<Rightarrow> string option \<times> string option \<times> string option" where
  "derivedKeys e content isOutput =
     (case content of
        None \<Rightarrow> (None, None, None)
      | Some c \<Rightarrow>
          if c \<noteq> [] \<and> (isPath e c \<or> isOutput)
          then (Some (basename e c), Some (toLowerCase (drop 1 (extname e c))), orUndefined (getType e c))
          else (None, None, None))"

text \<open>
  The override by the supplied format, or else the scan of \<open>codecRegexes\<close>
  (second \<open>if\<close> of \<open>match\<close>). The result is \<open>(fileName, extName, mediaType)\<close>.
\<close>

definition resolveKeys ::
  "('n, 'f) env \<Rightarrow> string option \<Rightarrow> string option \<Rightarrow> bool \<Rightarrow>
   string option \<times> string option \<times> string option" where
  "resolveKeys e content fmt isOutput =
     (case derivedKeys e content isOutput of (fileName, extName, mediaType) \<Rightarrow>
        if truthy fmt then
          (if CHR ''/'' \<in> set (the fmt) then (fileName, extName, fmt)
           else (fileName, fmt, orUndefined (getType e (the fmt))))
        else if truthy content \<and> schemeRegex (the content) then
          (case find (\<lambda>(codecName, regex). regex (the content)) codecRegexes of
             Some (codecName, regex) \<Rightarrow> (fileName, Some codecName, mediaType)
           | None \<Rightarrow> (fileName, extName, mediaType))
        else (fileName, extName, mediaType))"

text \<open>\<open>getCodec\<close>: an instance of the first exported class that extends \<open>Codec\<close>.\<close>

fun getCodec :: "'c export list \<Rightarrow> 'c option" where
  "getCodec [] = None"
| "getCodec (CodecClass c # exports) = Some c"
| "getCodec (OtherExport # exports) = getCodec exports"

text \<open>The text that the template \<open>./codecs/${extName}\<close> puts for \<open>extName\<close>.\<close>

definition moduleName :: "string option \<Rightarrow> string" where
  "moduleName extName = (case extName of None \<Rightarrow> ''undefined'' | Some n \<Rightarrow> n)"

text \<open>
  The body of a \<open>try { const c = await import(...); codec = getCodec(c) } catch {}\<close>
  block: \<open>codec\<close> keeps its previous value when the import throws.
\<close>

definition tryImport :: "('n, 'f) env \<Rightarrow> string \<Rightarrow> ('n, 'f) codec option \<Rightarrow> ('n, 'f) codec option" where
  "tryImport e name codec =
     (case importModule e name of None \<Rightarrow> codec | Some exports \<Rightarrow> getCodec exports)"

definition declares :: "string list option \<Rightarrow> string option \<Rightarrow> bool" where
  "declares names key = (truthy key \<and> (case names of None \<Rightarrow> False | Some l \<Rightarrow> the key \<in> set l))"

text \<open>The four tests of the loop body, in the order of the source.\<close>

definition codecMatches ::
  "('n, 'f) codec \<Rightarrow> string option \<Rightarrow> string option \<Rightarrow> string option \<Rightarrow> string option \<Rightarrow> bool" where
  "codecMatches c fileName extName mediaType content =
     (if declares (fileNames c) fileName then True
      else if declares (extNames c) extName then True
      else if declares (mediaTypes c) mediaType then True
      else truthy content \<and> (case sniff c of None \<Rightarrow> False | Some f \<Rightarrow> f (the content)))"

text \<open>
  The \<open>for (const codecName of codecList)\<close> loop. The variable \<open>codec\<close> is declared
  outside the loop, so it is an argument here; \<open>None\<close> as result means that the loop
  ended (by exhaustion or by \<open>break\<close>) without returning.
\<close>

fun scan ::
  "('n, 'f) env \<Rightarrow> string option \<Rightarrow> string option \<Rightarrow> string option \<Rightarrow> string option \<Rightarrow>
   ('n, 'f) codec option \<Rightarrow> string list \<Rightarrow> ('n, 'f) codec option" where
  "scan e fileName extName mediaType content codec [] = None"
| "scan e fileName extName mediaType content codec (codecName # rest) =
     (case tryImport e codecName codec of
        None \<Rightarrow> None
      | Some c \<Rightarrow>
          if codecMatches c fileName extName mediaType content then Some c
          else scan e fileName extName mediaType content (Some c) rest)"

definition noCodecMessage :: "string option \<Rightarrow> string option \<Rightarrow> string" where
  "noCodecMessage content fmt =
     ''No codec could be found''
     @ (if truthy content then '' for content \"'' @ the content @ ''\"'' else [])
     @ (if truthy fmt then '' for format \"'' @ the fmt @ ''\"'' else [])
     @ ''.''"

definition match ::
  "('n, 'f) env \<Rightarrow> string option \<Rightarrow> string option \<Rightarrow> bool \<Rightarrow> error + ('n, 'f) codec" where
  "match e content fmt isOutput =
     (case resolveKeys e content fmt isOutput of (fileName, extName, mediaType) \<Rightarrow>
        (case tryImport e (moduleName extName) None of
           Some codec \<Rightarrow> Inr codec
         | None \<Rightarrow>
             (case scan e fileName extName mediaType content None codecList of
                Some codec \<Rightarrow> Inr codec
              | None \<Rightarrow> Inl (Error (noCodecMessage content fmt)))))"

definition optionMissingMessage :: string where
  "optionMissingMessage = ''At least one of \"filePath\" or \"format\" option must be provided''"

definition encode :: "('n, 'f) env \<Rightarrow> 'n \<Rightarrow> options \<Rightarrow> error + 'f" where
  "encode e node opts =
     (if \<not> (truthy (filePath opts) \<or> truthy (format opts))
      then Inl (Error optionMissingMessage)
      else (case match e (filePath opts) (format opts) True of
              Inl err \<Rightarrow> Inl err
            | Inr codec \<Rightarrow> codec_encode codec node opts))"

subsection \<open>An installation with the Markdown and JATS codecs\<close>

text \<open>
  A concrete environment for evaluating \<open>match\<close>: POSIX \<open>path.basename\<close> and
  \<open>path.extname\<close>, a fragment of the table of \<open>mime\<close>, and a \<open>codecs\<close> directory
  that holds the two codec modules whose classes are in the sources at hand
  (\<open>MdCodec\<close> and \<open>JatsCodec\<close>, with the metadata that the classes declare); every
  other import throws. Nodes and files are abstracted to \<open>unit\<close>.
\<close>

definition posixBasename :: "string \<Rightarrow> string" where
  "posixBasename p =
     rev (takeWhile (\<lambda>c. c \<noteq> CHR ''/'') (dropWhile (\<lambda>c. c = CHR ''/'') (rev p)))"

definition posixExtname :: "string \<Rightarrow> string" where
  "posixExtname p =
     (let b = posixBasename p;
          stem = rev (dropWhile (\<lambda>c. c \<noteq> CHR ''.'') (rev b))
      in if length stem \<le> 1 \<or> b = ''..'' then [] else drop (length stem - 1) b)"

definition mimeTypes :: "(string \<times> string) list" where
  "mimeTypes =
     [(''md'', ''text/markdown''), (''markdown'', ''text/markdown''),
      (''html'', ''text/html''), (''txt'', ''text/plain''), (''json'', ''application/json'')]"

definition mimeGetType :: "string \<Rightarrow> string option" where
  "mimeGetType p =
     map_of mimeTypes
       (toLowerCase (rev (takeWhile (\<lambda>c. c \<noteq> CHR ''.'' \<and> c \<noteq> CHR ''/'') (rev p))))"

definition mdCodec :: "(unit, unit) codec" where
  "mdCodec = \<lparr> fileNames = None, extNames = None,
               mediaTypes = Some [''text/markdown'', ''text/x-markdown''],
               sniff = None,
               codec_decode = (\<lambda>file. Inr ()), codec_encode = (\<lambda>node opts. Inr ()) \<rparr>"

text \<open>
  The regular expression of \<open>JatsCodec.sniff\<close>, applied to content that is not the
  path of an existing file: a sequence of literals and \<open>\s+\<close>, searched anywhere in
  the content.
\<close>

datatype token = Lit string | Spaces

definition isSpace :: "char \<Rightarrow> bool" where
  "isSpace c = (c \<in> {CHR '' '', CHR 0x09, CHR 0x0A, CHR 0x0B, CHR 0x0C, CHR 0x0D})"

fun matchesAt :: "token list \<Rightarrow> string \<Rightarrow> bool" where
  "matchesAt [] s = True"
| "matchesAt (Lit l # ts) s = (take (length l) s = l \<and> matchesAt ts (drop (length l) s))"
| "matchesAt (Spaces # ts) s = (takeWhile isSpace s \<noteq> [] \<and> matchesAt ts (dropWhile isSpace s))"

fun searchFrom :: "token list \<Rightarrow> string \<Rightarrow> bool" where
  "searchFrom ts [] = matchesAt ts []"
| "searchFrom ts (c # s) = (matchesAt ts (c # s) \<or> searchFrom ts s)"

definition jatsSniff :: "string \<Rightarrow> bool" where
  "jatsSniff content =
     (searchFrom [Lit ''<!DOCTYPE'', Spaces, Lit ''article'', Spaces, Lit ''PUBLIC'', Spaces, Lit ''\"''] content
      \<or> searchFrom [Lit (CHR 0x27 # ''-//NLM//DTD JATS (Z39.96)'')] content)"

definition jatsCodec :: "(unit, unit) codec" where
  "jatsCodec = \<lparr> fileNames = None, extNames = Some [''jats''],
               mediaTypes = Some [''application/jats+xml''],
               sniff = Some jatsSniff,
               codec_decode = (\<lambda>file. Inr ()), codec_encode = (\<lambda>node opts. Inr ()) \<rparr>"

definition exampleEnv :: "(unit, unit) env" where
  "exampleEnv =
     \<lparr> isPath = (\<lambda>c. CHR ''/'' \<in> set c \<or> posixExtname c \<noteq> []),
       basename = posixBasename,
       extname = posixExtname,
       getType = mimeGetType,
       importModule = (\<lambda>name.
          if name = ''md'' then Some [OtherExport, CodecClass mdCodec, OtherExport]
          else if name = ''jats'' then Some [CodecClass jatsCodec]
          else None) \<rparr>"

section \<open>The Markdown codec (codecs/md/index.ts)\<close>

subsection \<open>Node model and MDAST\<close>

text \<open>
  The fragment of the Stencila node model that the Markdown codec is modelled on.
  A string is a node of type \<open>Text\<close>; \<open>Array\<close> and \<open>Object\<close> are plain JavaScript
  arrays and objects (an object with no \<open>type\<close> key). Optional properties are
  \<open>option\<close>s. \<open>Article props content\<close> holds every property other than \<open>type\<close>
  and \<open>content\<close> in \<open>props\<close>, in key order. The content of a \<open>Quote\<close> and the
  values of a \<open>meta\<close> dictionary are strings.
\<close>

datatype number = NaN | Infinity bool | Finite rat

datatype node =
    Str string
  | Null
  | Boolean bool
  | Number number
  | Array "node list"
  | Object "(string \<times> node) list"
  | Article "(string \<times> node) list" "node list option"
  | Include string "node list option"
  | Heading nat "node list"
  | Paragraph "node list"
  | QuoteBlock "node list"
  | CodeBlock string "string option" "(string \<times> string) list option"
  | CodeChunk string "string option" "(string \<times> string) list option" "node list option"
  | Figure "node list option" "node list option" "string option"
  | ThematicBreak
  | Cite string
  | Emphasis "node list"
  | Strong "node list"
  | Delete "node list"
  | Quote "string list" "string option"

text \<open>
  The interface \<open>Extension\<close>: a generic extension node as the parser plug-in yields it.
  A property may be present with the value \<open>undefined\<close>.
\<close>

datatype ext_type = InlineExtension | BlockExtension

record extension =
  ext_type :: ext_type
  ext_name :: string
  ext_content :: "string option"
  ext_argument :: "string option"
  ext_properties :: "(string \<times> string option) list option"

text \<open>
  The MDAST nodes of the fragment. \<open>MCode lang meta hProperties value\<close> is a \<open>code\<close>
  node with its \<open>data.hProperties\<close>; \<open>MUndefined\<close> is the value \<open>undefined\<close> where
  the encoder puts it in place of a node.
\<close>

datatype mdast =
    MRoot "mdast list"
  | MYaml string
  | MHeading nat "mdast list"
  | MParagraph "mdast list"
  | MBlockquote "mdast list"
  | MCode "string option" "string option" "(string \<times> string) list option" string
  | MThematicBreak
  | MEmphasis "mdast list"
  | MStrong "mdast list"
  | MDelete "mdast list"
  | MText string
  | MHtml string
  | MExtension extension
  | MUndefined

text \<open>
  What the codec takes from its surroundings: the \<open>unified\<close> parser with its plug-ins
  (followed by \<open>compact\<close>, \<open>resolveReferences\<close> and \<open>stringifyHTML\<close>, which leave the
  nodes of the fragment as they are), the \<open>unified\<close> stringifier with and without the
  front matter plug-in, \<open>js-yaml\<close>, \<open>parseFloat\<close> and \<open>Number.toString\<close>, \<open>JSON5\<close>,
  \<open>JSON.stringify\<close> on strings,
  the HTML codec, and \<open>isBlockContent\<close> of the schema. The last two fields stand for
  the calls of \<open>encodeMarkdown\<close> and \<open>decodeMarkdown\<close> that the encoders and decoders
  of block extensions make on the Markdown text of their content.
\<close>

record md_env =
  parseMarkdown :: "string \<Rightarrow> mdast"
  stringify :: "mdast \<Rightarrow> string"
  stringifyBasic :: "mdast \<Rightarrow> string"
  safeLoad :: "string \<Rightarrow> error + (string \<times> node) list"
  safeDump :: "(string \<times> node) list \<Rightarrow> string"
  parseFloat :: "string \<Rightarrow> number"
  numberToString :: "number \<Rightarrow> string"
  json5Parse :: "string \<Rightarrow> error + node"
  json5Stringify :: "node \<Rightarrow> string"
  jsonStringify :: "string \<Rightarrow> string"
  decodeHtml :: "string \<Rightarrow> node option"
  isBlockContent :: "node \<Rightarrow> bool"
  encodeMarkdownRec :: "node \<Rightarrow> error + string"
  decodeMarkdownRec :: "string \<Rightarrow> error + node"

subsection \<open>Strings\<close>

text \<open>\<open>String.prototype.trim\<close> and \<open>trimRight\<close>.\<close>

definition trimRight :: "string \<Rightarrow> string" where
  "trimRight s = rev (dropWhile isSpace (rev s))"

definition trim :: "string \<Rightarrow> string" where
  "trim s = trimRight (dropWhile isSpace s)"

text \<open>
  \<open>value.replace(whiteSpaceRegEx, '$1 ')\<close> for the regular expression
  \<open>/(^|[^\n\s])[\n]+\s*(?![\n])/g\<close>: a run of white space that begins with a new
  line, at the start of the string or after a character that is not white space,
  becomes one space.
\<close>

function collapseFrom :: "string \<Rightarrow> string" where
  "collapseFrom [] = []"
| "collapseFrom (c # s) =
     (if \<not> isSpace c \<and> s \<noteq> [] \<and> hd s = CHR 0x0A
      then c # CHR '' '' # collapseFrom (dropWhile isSpace s)
      else c # collapseFrom s)"
  by pat_completeness auto
termination
  by (relation "measure length") (auto simp: less_Suc_eq_le length_dropWhile_le)

definition collapseWhiteSpace :: "string \<Rightarrow> string" where
  "collapseWhiteSpace s =
     (if s \<noteq> [] \<and> hd s = CHR 0x0A then CHR '' '' # collapseFrom (dropWhile isSpace s)
      else collapseFrom s)"



text \<open>The first error of a list of results, or all the values (\<open>Array.map\<close> with a
  function that may throw).\<close>

fun collect :: "(error + 'a) list \<Rightarrow> error + 'a list" where
  "collect [] = Inr []"
| "collect (Inl err # rs) = Inl err"
| "collect (Inr x # rs) = (case collect rs of Inl err \<Rightarrow> Inl err | Inr xs \<Rightarrow> Inr (x # xs))"

definition andThen :: "error + 'a \<Rightarrow> ('a \<Rightarrow> error + 'b) \<Rightarrow> error + 'b" where
  "andThen r f = (case r of Inl err \<Rightarrow> Inl err | Inr x \<Rightarrow> f x)"

definition mapResult :: "('a \<Rightarrow> 'b) \<Rightarrow> error + 'a \<Rightarrow> error + 'b" where
  "mapResult f r = (case r of Inl err \<Rightarrow> Inl err | Inr x \<Rightarrow> Inr (f x))"

subsection \<open>Encoding\<close>

definition inlineExtension :: "string \<Rightarrow> string option \<Rightarrow> string option \<Rightarrow> mdast" where
  "inlineExtension name content' argument =
     MExtension \<lparr> ext_type = InlineExtension, ext_name = name, ext_content = content',
                  ext_argument = argument, ext_properties = None \<rparr>"

definition blockExtension :: "string \<Rightarrow> string option \<Rightarrow> string option \<Rightarrow> mdast" where
  "blockExtension name content' argument =
     MExtension \<lparr> ext_type = BlockExtension, ext_name = name, ext_content = content',
                  ext_argument = argument, ext_properties = None \<rparr>"




























subsection \<open>Decoding\<close>

text \<open>\<open>a ?? b\<close>: the left operand unless it is \<open>undefined\<close>.\<close>

definition orElse :: "'a option \<Rightarrow> 'a option \<Rightarrow> 'a option" where
  "orElse a b = (case a of None \<Rightarrow> b | Some x \<Rightarrow> Some x)"

definition decodeCodeblock ::
  "string option \<Rightarrow> string option \<Rightarrow> (string \<times> string) list option \<Rightarrow> string \<Rightarrow> node" where
  "decodeCodeblock lang meta hProperties value =
     CodeBlock value
       (if truthy lang then lang else None)
       (if truthy meta then hProperties else None)"

definition decodeThematicBreak :: node where
  "decodeThematicBreak = ThematicBreak"

definition decodeText :: "string \<Rightarrow> node" where
  "decodeText value = Str (collapseWhiteSpace value)"

definition decodeQuote :: "extension \<Rightarrow> node" where
  "decodeQuote ext =
     Quote (if truthy (ext_content ext) then [the (ext_content ext)] else [])
           (if truthy (ext_argument ext) then ext_argument ext else None)"

definition decodeNull :: node where
  "decodeNull = Null"

definition decodeBoolean :: "extension \<Rightarrow> bool" where
  "decodeBoolean ext =
     (if ext_name ext = ''true'' then True
      else if ext_name ext = ''false'' then False
      else (let value = the (orElse (ext_argument ext) (orElse (ext_content ext) (Some ''true'')))
            in value = ''true'' \<or> value = ''1''))"

definition decodeNumber :: "md_env \<Rightarrow> extension \<Rightarrow> number" where
  "decodeNumber e ext =
     parseFloat e (the (orElse (ext_argument ext) (orElse (ext_content ext) (Some ''0''))))"

definition decodeArray :: "md_env \<Rightarrow> extension \<Rightarrow> error + node" where
  "decodeArray e ext =
     (let items = the (orElse (ext_argument ext) (orElse (ext_content ext) (Some [])))
      in json5Parse e (''['' @ items @ '']''))"

definition decodeObject :: "md_env \<Rightarrow> extension \<Rightarrow> error + node" where
  "decodeObject e ext =
     (let props = (case ext_properties ext of
                     None \<Rightarrow> []
                   | Some ps \<Rightarrow>
                       concat (map (\<lambda>(key, value).
                                      case value of None \<Rightarrow> [] | Some v \<Rightarrow> [(key, Str v)]) ps))
      in if props \<noteq> [] then Inr (Object props)
         else json5Parse e
                (''{'' @ (case orElse (ext_argument ext) (ext_content ext) of
                            None \<Rightarrow> ''undefined'' | Some s \<Rightarrow> s) @ ''}''))"

text \<open>\<open>(article.content && article.content) || []\<close> for the result of \<open>decodeMarkdown\<close>.\<close>

definition articleContent :: "node \<Rightarrow> node list" where
  "articleContent article =
     (case article of Article props (Some nodes) \<Rightarrow> nodes | _ \<Rightarrow> [])"

definition decodeInclude :: "md_env \<Rightarrow> extension \<Rightarrow> error + node" where
  "decodeInclude e ext =
     (let source = (case ext_argument ext of None \<Rightarrow> [] | Some a \<Rightarrow> a) in
      if truthy (ext_content ext) then
        andThen (decodeMarkdownRec e (the (ext_content ext)))
          (\<lambda>article. Inr (Include source (Some (filter (isBlockContent e) (articleContent article)))))
      else Inr (Include source None))"

text \<open>
  \<open>pushOutputs\<close> of \<open>decodeCodeChunk\<close>, and its loop over \<open>nodes.slice(1)\<close> with the
  variables \<open>outputs\<close> and \<open>outputNodes\<close>.
\<close>

definition pushOutputs :: "node list \<Rightarrow> node list \<Rightarrow> node list" where
  "pushOutputs outputs outputNodes' =
     (if length outputNodes' = 1 then
        (case outputNodes' ! 0 of
           Paragraph content' \<Rightarrow>
             if length content' = 1 then outputs @ [content' ! 0]
             else outputs @ [Paragraph content']
         | node \<Rightarrow> outputs @ [node])
      else outputs @ [Array outputNodes'])"

fun splitOutputs :: "node list \<Rightarrow> node list \<Rightarrow> node list \<Rightarrow> node list" where
  "splitOutputs outputs outputNodes' [] = pushOutputs outputs outputNodes'"
| "splitOutputs outputs outputNodes' (outputContainer # rest) =
     (if outputContainer = ThematicBreak
      then splitOutputs (pushOutputs outputs outputNodes') [] rest
      else splitOutputs outputs (outputNodes' @ [outputContainer]) rest)"

text \<open>\<open>decodeCodeChunk\<close> from the point where \<open>nodes\<close> is known.\<close>

definition codeChunkOfNodes :: "node list \<Rightarrow> node" where
  "codeChunkOfNodes nodes =
     (case nodes of
        CodeBlock text programmingLanguage meta # rest \<Rightarrow>
          (let outputs = (if length nodes > 1 then splitOutputs [] [] rest else [])
           in CodeChunk text programmingLanguage meta
                (if length outputs > 0 then Some outputs else None))
      | _ \<Rightarrow> CodeChunk [] None None None)"

definition decodeCodeChunk :: "md_env \<Rightarrow> extension \<Rightarrow> error + node" where
  "decodeCodeChunk e ext =
     (case ext_content ext of
        None \<Rightarrow> Inr (CodeChunk [] None None None)
      | Some c \<Rightarrow>
          andThen (decodeMarkdownRec e c) (\<lambda>article. Inr (codeChunkOfNodes (articleContent article))))"

definition decodeFigure :: "md_env \<Rightarrow> extension \<Rightarrow> error + node" where
  "decodeFigure e ext =
     (case ext_content ext of
        None \<Rightarrow> Inr (Figure None None None)
      | Some c \<Rightarrow>
          andThen (decodeMarkdownRec e c)
            (\<lambda>article.
               let nodes = articleContent article
               in Inr (Figure (Some (take 1 nodes)) (Some (drop 1 nodes)) (ext_argument ext))))"

text \<open>The inner \<open>switch (ext.name)\<close> of \<open>decodeNode\<close>.\<close>

definition decodeExtensionNode :: "md_env \<Rightarrow> extension \<Rightarrow> error + node" where
  "decodeExtensionNode e ext =
     (if ext_name ext = ''chunk'' then decodeCodeChunk e ext
      else if ext_name ext = ''figure'' then decodeFigure e ext
      else if ext_name ext = ''quote'' then Inr (decodeQuote ext)
      else if ext_name ext = ''include'' then decodeInclude e ext
      else if ext_name ext = ''null'' then Inr decodeNull
      else if ext_name ext \<in> {''boolean'', ''true'', ''false''} then Inr (Boolean (decodeBoolean ext))
      else if ext_name ext = ''number'' then Inr (Number (decodeNumber e ext))
      else if ext_name ext = ''array'' then decodeArray e ext
      else if ext_name ext = ''object'' then decodeObject e ext
      else Inr (Str []))"

text \<open>
  \<open>decodeNode\<close>, with \<open>decodeHeading\<close>, \<open>decodeParagraph\<close>, \<open>decodeBlockquote\<close>,
  \<open>decodeEmphasis\<close>, \<open>decodeStrong\<close>, \<open>decodeDelete\<close> and \<open>decodeHTML\<close> written in
  their cases. A node type without a case (here \<open>root\<close> and \<open>yaml\<close>) is decoded to the
  empty string; reading the type of \<open>undefined\<close> throws.
\<close>

fun decodeNode :: "md_env \<Rightarrow> mdast \<Rightarrow> error + node" where
  "decodeNode e (MHeading depth children) =
     mapResult (Heading depth) (collect (map (decodeNode e) children))"
| "decodeNode e (MParagraph children) =
     mapResult Paragraph (collect (map (decodeNode e) children))"
| "decodeNode e (MBlockquote children) =
     mapResult QuoteBlock (collect (map (decodeNode e) children))"
| "decodeNode e (MCode lang meta hProperties value) =
     Inr (decodeCodeblock lang meta hProperties value)"
| "decodeNode e MThematicBreak = Inr decodeThematicBreak"
| "decodeNode e (MEmphasis children) =
     mapResult Emphasis (collect (map (decodeNode e) children))"
| "decodeNode e (MStrong children) =
     mapResult Strong (collect (map (decodeNode e) children))"
| "decodeNode e (MDelete children) =
     mapResult Delete (collect (map (decodeNode e) children))"
| "decodeNode e (MText value) = Inr (decodeText value)"
| "decodeNode e (MExtension ext) = decodeExtensionNode e ext"
| "decodeNode e (MHtml value) =
     Inr (case decodeHtml e value of None \<Rightarrow> Str [] | Some node \<Rightarrow> node)"
| "decodeNode e (MRoot children) = Inr (Str [])"
| "decodeNode e (MYaml value) = Inr (Str [])"
| "decodeNode e MUndefined = Inl TypeError"

text \<open>
  The loop of \<open>decodeArticle\<close> over \<open>root.children\<close>, with the variables \<open>title\<close>,
  \<open>meta\<close> and \<open>content\<close>.
\<close>

fun decodeChildren ::
  "md_env \<Rightarrow> node option \<Rightarrow> (string \<times> node) list option \<Rightarrow> node list \<Rightarrow> mdast list \<Rightarrow>
   error + (node option \<times> (string \<times> node) list option \<times> node list)" where
  "decodeChildren e title meta content' [] = Inr (title, meta, content')"
| "decodeChildren e title meta content' (child # rest) =
     (case child of
        MYaml value \<Rightarrow>
          andThen (safeLoad e value)
            (\<lambda>frontmatter.
               decodeChildren e
                 (case map_of frontmatter ''title'' of None \<Rightarrow> title | Some t \<Rightarrow> Some t)
                 (Some frontmatter) content' rest)
      | _ \<Rightarrow>
          if title = None \<and> (case child of MHeading depth children \<Rightarrow> depth = 1 | _ \<Rightarrow> False)
          then
            andThen (collect (map (decodeNode e) (case child of MHeading depth children \<Rightarrow> children | _ \<Rightarrow> [])))
              (\<lambda>content''.
                 decodeChildren e
                   (Some (case content'' of [Str s] \<Rightarrow> Str s | _ \<Rightarrow> Array content''))
                   meta content' rest)
          else
            andThen (decodeNode e child)
              (\<lambda>node. decodeChildren e title meta (content' @ [node]) rest))"

text \<open>
  The properties of \<open>stencila.article({ title, ...meta, content })\<close> other than
  \<open>type\<close> and \<open>content\<close>: \<open>title\<close> unless it is undefined, overwritten and followed
  by the entries of \<open>meta\<close>.
\<close>

definition articleProps :: "node option \<Rightarrow> (string \<times> node) list option \<Rightarrow> (string \<times> node) list" where
  "articleProps title meta =
     (let entries = (case meta of None \<Rightarrow> [] | Some m \<Rightarrow> m) in
      (case map_of entries ''title'' of
         Some t \<Rightarrow> [(''title'', t)]
       | None \<Rightarrow> (case title of None \<Rightarrow> [] | Some t \<Rightarrow> [(''title'', t)]))
      @ filter (\<lambda>(key, value). key \<notin> {''title'', ''content'', ''type''}) entries)"

definition decodeArticle :: "md_env \<Rightarrow> mdast \<Rightarrow> error + node" where
  "decodeArticle e tree =
     (case tree of
        MRoot children \<Rightarrow>
          andThen (decodeChildren e None None [] children)
            (\<lambda>(title, meta, content'). Inr (Article (articleProps title meta) (Some content')))
      | _ \<Rightarrow> Inl TypeError)"


subsection \<open>An environment for the examples\<close>

text \<open>
  The external functions tabulated on the documents of the examples below:
  the front matter \<open>title: Front\<close> and \<open>author: Ann\<close>, the numerals \<open>0\<close> and
  \<open>3.14\<close>, the array texts \<open>[]\<close> and \<open>[1, 2]\<close>, the paragraph \<open>It is !true.\<close>, and
  a code chunk in R with the output \<open>2\<close>.
\<close>

definition schemaBlockContent :: "node \<Rightarrow> bool" where
  "schemaBlockContent n =
     (case n of
        Include source content' \<Rightarrow> True
      | Heading depth content' \<Rightarrow> True
      | Paragraph content' \<Rightarrow> True
      | QuoteBlock content' \<Rightarrow> True
      | CodeBlock text programmingLanguage meta \<Rightarrow> True
      | CodeChunk text programmingLanguage meta outputs \<Rightarrow> True
      | Figure content' caption label \<Rightarrow> True
      | ThematicBreak \<Rightarrow> True
      | _ \<Rightarrow> False)"

definition chunkMarkdown :: string where
  "chunkMarkdown = ''```r'' @ [CHR 0x0A] @ ''1 + 1'' @ [CHR 0x0A] @ ''```'' @ [CHR 0x0A, CHR 0x0A]
                   @ ''!number(2)'' @ [CHR 0x0A]"

definition exampleMdEnv :: md_env where
  "exampleMdEnv =
     \<lparr> parseMarkdown = (\<lambda>md.
          if md = ''It is !true.''
          then MRoot [MParagraph [MText ''It is '', inlineExtension ''true'' None None, MText ''.'']]
          else MRoot []),
       stringify = (\<lambda>tree.
          if tree = MRoot [MParagraph [MText ''It is '', MHtml ''!true'', MText ''.'']]
          then ''It is !true.''
          else []),
       stringifyBasic = (\<lambda>tree. []),
       safeLoad = (\<lambda>value.
          if value = ''title: Front'' then Inr [(''title'', Str ''Front'')]
          else if value = ''author: Ann'' then Inr [(''author'', Str ''Ann'')]
          else Inl (Error ''YAMLException'')),
       safeDump = (\<lambda>props. []),
       parseFloat = (\<lambda>s.
          if s = ''0'' then Finite 0 else if s = ''3.14'' then Finite (314 / 100) else NaN),
       numberToString = (\<lambda>n. if n = Finite 2 then ''2'' else ''0''),
       json5Parse = (\<lambda>s.
          if s = ''[]'' then Inr (Array [])
          else if s = ''[1, 2]'' then Inr (Array [Number (Finite 1), Number (Finite 2)])
          else Inl (Error ''SyntaxError'')),
       json5Stringify = (\<lambda>n. ''[]''),
       jsonStringify = (\<lambda>s. ''\"'' @ s @ ''\"''),
       decodeHtml = (\<lambda>html. None),
       isBlockContent = schemaBlockContent,
       encodeMarkdownRec = (\<lambda>n.
          if n = Article [] (Some [CodeBlock ''1 + 1'' (Some ''r'') None, Number (Finite 2)])
          then Inr chunkMarkdown
          else Inr []),
       decodeMarkdownRec = (\<lambda>md.
          if md = trim chunkMarkdown
          then Inr (Article [] (Some [CodeBlock ''1 + 1'' (Some ''r'') None,
                                      Paragraph [Number (Finite 2)]]))
          else Inr (Article [] (Some []))) \<rparr>"

subsection \<open>Notions used in the statements\<close>

definition isYaml :: "mdast \<Rightarrow> bool" where
  "isYaml n = (case n of MYaml value \<Rightarrow> True | _ \<Rightarrow> False)"

text \<open>The title that \<open>decodeArticle\<close> makes of the decoded children of a heading.\<close>

definition headingTitle :: "node list \<Rightarrow> node" where
  "headingTitle content' = (case content' of [Str s] \<Rightarrow> Str s | _ \<Rightarrow> Array content')"








section \<open>The JATS codec: encoding citations and references\<close>

subsection \<open>XML elements and the encode state\<close>

text \<open>
  An \<open>xml.Element\<close> of type \<open>element\<close> (name, attributes, \<open>elements\<close>) or of type
  \<open>text\<close>; \<open>Raw t\<close> is the element that \<open>xml.load\<close> parses from the text \<open>t\<close>. The \<open>xref\<close> elements that \<open>encodeCite\<close> creates are changed later through
  the references to them that the state keeps, so they live in a store, the field
  \<open>heap\<close> of the state, and \<open>Ref a\<close> is the reference to the element at address \<open>a\<close>;
  every other element is a value. \<open>elem\<close> is the constructor function of \<open>util/xml\<close>:
  its result has the given attributes and the given children as its \<open>elements\<close> array
  (\<open>encodeBody\<close> pushes to the \<open>elements\<close> of \<open>elem('sec')\<close>).
\<close>

datatype xml =
    Element string "(string \<times> string option) list" "xml list option"
  | Text string
  | Raw string
  | Ref nat


text \<open>
  \<open>EncodeState\<close>. The two dictionaries are maps from ids; ids are taken not to be names
  of the properties that every JavaScript object inherits.
\<close>

record encode_state =
  tables :: nat
  citations :: "string \<rightharpoonup> nat list"
  references :: "string \<rightharpoonup> string"
  heap :: "xml list"


text \<open>The tree that is serialised in the end: every reference replaced by its element.\<close>

fun resolve :: "xml list \<Rightarrow> xml \<Rightarrow> xml" where
  "resolve h (Ref a) = (if a < length h then h ! a else Ref a)"
| "resolve h (Text t) = Text t"
| "resolve h (Raw t) = Raw t"
| "resolve h (Element name attributes None) = Element name attributes None"
| "resolve h (Element name attributes (Some children)) =
     Element name attributes (Some (map (resolve h) children))"

subsection \<open>Nodes and references\<close>


text \<open>
  An item of \<open>Article.references\<close>: a string or a \<open>CreativeWork\<close>. Of a work, the
  model keeps the id, the authors (a \<open>Person\<close> with its \<open>familyNames\<close>, or an
  organization), the publication date (a string or a \<open>Date\<close> node with its value) and,
  as \<open>work_elements\<close>, the sub-elements of \<open><element-citation>\<close> that
  \<open>encodeReference\<close> builds from the work without the state.
\<close>

datatype author = Person "string list option" | Organization




subsection \<open>Citation text\<close>




subsection \<open>Citations\<close>

text \<open>
  \<open>populateBibrContent\<close>; \<open>populateElement\<close> is the body of its \<open>forEach\<close> on one
  \<open>xref\<close>.
\<close>

definition populateElement :: "string \<Rightarrow> xml \<Rightarrow> xml" where
  "populateElement text x =
     (case x of
        Element name attributes children \<Rightarrow>
          (let elements = (case children of None \<Rightarrow> [] | Some els \<Rightarrow> els)
           in Element name attributes
                (Some (if length elements = 0 then elements @ [Text text] else elements)))
      | _ \<Rightarrow> x)"

definition populateAt :: "string \<Rightarrow> nat \<Rightarrow> xml list \<Rightarrow> xml list" where
  "populateAt text a h = (if a < length h then h[a := populateElement text (h ! a)] else h)"




subsection \<open>Content\<close>






subsection \<open>References\<close>





subsection \<open>Articles\<close>



subsection \<open>Encoding in two passes\<close>



definition xrefWith :: "string \<Rightarrow> string option \<Rightarrow> xml" where
  "xrefWith rid text =
     Element ''xref'' [(''rid'', Some rid), (''ref-type'', Some ''bibr'')]
       (Some (case text of None \<Rightarrow> [] | Some t \<Rightarrow> [Text t]))"





text \<open>
  The relation between a state and the list \<open>rids\<close> of the ids of the \<open>xref\<close> elements
  made so far: the store holds the element of each, filled from \<open>references\<close>, and
  \<open>citations\<close> registers under every id the addresses of the elements with that id.
\<close>

definition consistent :: "string list \<Rightarrow> encode_state \<Rightarrow> bool" where
  "consistent rids s \<longleftrightarrow>
     heap s = map (\<lambda>rid. xrefWith rid (references s rid)) rids
     \<and> (\<forall>rid. case citations s rid of
                None \<Rightarrow> rid \<notin> set rids
              | Some xrefs \<Rightarrow> set xrefs = {a. a < length rids \<and> rids ! a = rid})"

text \<open>
  \<open>simulated rids s r g\<close>: the result \<open>r\<close> of an encoding step from the state \<open>s\<close>
  agrees with the rendering \<open>g\<close>. The step makes the \<open>xref\<close> elements of some ids
  \<open>new\<close>, leaves \<open>references\<close> as it is, and its elements, resolved in any store that
  holds the elements of \<open>rids @ new\<close> (and possibly more) filled from any \<open>texts\<close>, are
  what \<open>g\<close> renders with those texts; the rendered elements hold no reference.
\<close>

definition simulated ::
  "string list \<Rightarrow> encode_state \<Rightarrow> xml list \<times> encode_state \<Rightarrow>
   ((string \<Rightarrow> string option) \<Rightarrow> xml list \<times> nat) \<Rightarrow> bool" where
  "simulated rids s r g \<longleftrightarrow>
     (\<exists>new.
        consistent (rids @ new) (snd r)
        \<and> references (snd r) = references s
        \<and> (\<forall>texts. tables (snd r) = snd (g texts))
        \<and> (\<forall>texts more.
              map (resolve (map (\<lambda>rid. xrefWith rid (texts rid)) (rids @ new @ more))) (fst r)
              = fst (g texts))
        \<and> (\<forall>texts h. map (resolve h) (fst (g texts)) = fst (g texts)))"

subsection \<open>Example articles\<close>





section \<open>Properties of the matcher and the facade\<close>

lemmas example_defs =
  exampleEnv_def match_def resolveKeys_def derivedKeys_def tryImport_def moduleName_def
  posixExtname_def posixBasename_def mimeGetType_def mimeTypes_def toLowerCase_def
  toLowerChar_def truthy_def orUndefined_def codecList_def codecMatches_def declares_def
  noCodecMessage_def schemeRegex_def isLowerAscii_def

lemma scan_None:
  assumes "\<forall>name\<in>set names. \<forall>c. tryImport e name None = Some c \<longrightarrow>
             \<not> codecMatches c fileName extName mediaType content"
      and "\<forall>c. codec = Some c \<longrightarrow> \<not> codecMatches c fileName extName mediaType content"
  shows "scan e fileName extName mediaType content codec names = None"
  using assms
proof (induction names arbitrary: codec)
  case Nil
  then show ?case by simp
next
  case (Cons name names)
  show ?case
  proof (cases "tryImport e name codec")
    case None
    then show ?thesis by simp
  next
    case (Some c)
    have nm: "\<not> codecMatches c fileName extName mediaType content"
      using Some Cons.prems by (auto simp: tryImport_def split: option.splits)
    have "scan e fileName extName mediaType content (Some c) names = None"
      using Cons.prems nm by (intro Cons.IH) auto
    then show ?thesis using Some nm by simp
  qed
qed

lemma match_error_message:
  "match e content fmt isOutput = Inl err \<Longrightarrow> err = Error (noCodecMessage content fmt)"
  by (auto simp: match_def split: prod.splits option.splits)

lemma noCodecMessage_neq_optionMissing: "noCodecMessage content fmt \<noteq> optionMissingMessage"
  by (simp add: noCodecMessage_def optionMissingMessage_def)

lemma codecMatches_no_keys: "\<not> codecMatches c None None None None"
  by (simp add: codecMatches_def declares_def truthy_def)

text \<open>
  When the first module of \<open>codecList\<close> cannot be imported, the loop is left at once
  (\<open>if (!codec) break\<close>), whatever the later modules hold.
\<close>

lemma scan_first_import_fails:
  "importModule e name = None \<Longrightarrow> scan e fileName extName mediaType content None (name # rest) = None"
  by (simp add: tryImport_def)

text \<open>
  The direct import by extension name comes before every other test: with a path as
  content and a format that is a media type (or no format, the content not being
  matched by a registered regular expression), the codec exported by the module named
  after the extension of the path is returned.
\<close>

lemma match_extension_of_path:
  assumes "content = Some p" and "p \<noteq> []" and "isPath e p \<or> isOutput"
      and "(truthy fmt \<and> CHR ''/'' \<in> set (the fmt)) \<or> (\<not> truthy fmt \<and> \<not> (schemeRegex p \<and> httpRegex p))"
      and "tryImport e (toLowerCase (drop 1 (extname e p))) None = Some c"
  shows "match e content fmt isOutput = Inr c"
  using assms
  by (auto simp: match_def resolveKeys_def derivedKeys_def moduleName_def codecRegexes_def truthy_def
           split: option.splits prod.splits)

subsection \<open>Claims on the matcher\<close>

text \<open>
  C2 (format hint given as a media type, with a path as content). Evaluated at
  \<open>match('a.md', 'application/jats+xml')\<close> in the installation above: the path gives
  the extension name \<open>md\<close>, the format replaces the media type only, and the direct
  import of \<open>./codecs/md\<close> returns the Markdown codec before any media type is
  compared; the JATS codec, which declares the media type, is not returned.
\<close>

theorem match_media_type_hint_with_path:
  "match exampleEnv (Some ''a.md'') (Some ''application/jats+xml'') False = Inr mdCodec
   \<and> mdCodec \<noteq> jatsCodec
   \<and> declares (mediaTypes jatsCodec) (Some ''application/jats+xml'')
   \<and> \<not> declares (mediaTypes mdCodec) (Some ''application/jats+xml'')"
  by (simp add: example_defs mdCodec_def jatsCodec_def)

text \<open>
  C4 (a module that fails to load). Evaluated at \<open>match(undefined, 'text/markdown')\<close>
  in the installation above, where the module of the first listed codec, \<open>http\<close>,
  cannot be imported: the loop is left at its first iteration and \<open>match\<close> raises,
  although the module \<open>md\<close> later in the list loads and its codec declares the media
  type.
\<close>

theorem match_first_module_fails_to_load:
  "match exampleEnv None (Some ''text/markdown'') False
     = Inl (Error ''No codec could be found for format \"text/markdown\".'')
   \<and> importModule exampleEnv ''http'' = None
   \<and> ''md'' \<in> set codecList
   \<and> tryImport exampleEnv ''md'' None = Some mdCodec
   \<and> codecMatches mdCodec None None (Some ''text/markdown'') None"
  by (simp add: example_defs mdCodec_def)

text \<open>
  C5 (no codec found). When the direct import by extension name yields no codec and no
  codec of the list matches by file name, extension name, media type or sniffing,
  \<open>match\<close> fails with an error whose message says that no codec could be found and
  quotes the content and the format that were supplied (each one if it is a non-empty
  string). In particular \<open>match(undefined, undefined)\<close> fails with the bare message,
  there being no module named \<open>undefined\<close>.
\<close>

theorem match_no_codec_error:
  "(resolveKeys e content fmt isOutput = (fileName, extName, mediaType)
      \<and> tryImport e (moduleName extName) None = None
      \<and> (\<forall>name\<in>set codecList. \<forall>c. tryImport e name None = Some c \<longrightarrow>
             \<not> codecMatches c fileName extName mediaType content)
    \<longrightarrow> match e content fmt isOutput =
          Inl (Error (''No codec could be found''
                      @ (if truthy content then '' for content \"'' @ the content @ ''\"'' else [])
                      @ (if truthy fmt then '' for format \"'' @ the fmt @ ''\"'' else [])
                      @ ''.'')))
   \<and> (tryImport e ''undefined'' None = None
        \<longrightarrow> match e None None isOutput = Inl (Error ''No codec could be found.''))"
proof (intro conjI impI)
  assume h: "resolveKeys e content fmt isOutput = (fileName, extName, mediaType)
      \<and> tryImport e (moduleName extName) None = None
      \<and> (\<forall>name\<in>set codecList. \<forall>c. tryImport e name None = Some c \<longrightarrow>
             \<not> codecMatches c fileName extName mediaType content)"
  then have "scan e fileName extName mediaType content None codecList = None"
    by (intro scan_None) auto
  with h show "match e content fmt isOutput =
          Inl (Error (''No codec could be found''
                      @ (if truthy content then '' for content \"'' @ the content @ ''\"'' else [])
                      @ (if truthy fmt then '' for format \"'' @ the fmt @ ''\"'' else [])
                      @ ''.''))"
    by (simp add: match_def noCodecMessage_def)
next
  assume h: "tryImport e ''undefined'' None = None"
  have keys: "resolveKeys e None None isOutput = (None, None, None)"
    by (simp add: resolveKeys_def derivedKeys_def truthy_def)
  have "scan e None None None None None codecList = None"
    by (intro scan_None) (simp_all add: codecMatches_no_keys)
  with h keys show "match e None None isOutput = Inl (Error ''No codec could be found.'')"
    by (simp add: match_def moduleName_def noCodecMessage_def truthy_def)
qed

theorem match_no_codec_error_witness:
  "resolveKeys exampleEnv (Some ''notes'') (Some ''application/x-unknown'') False
      = (None, None, Some ''application/x-unknown'')
   \<and> tryImport exampleEnv (moduleName None) None = None
   \<and> match exampleEnv (Some ''notes'') (Some ''application/x-unknown'') False
      = Inl (Error ''No codec could be found for content \"notes\" for format \"application/x-unknown\".'')
   \<and> tryImport exampleEnv ''undefined'' None = None
   \<and> match exampleEnv None None False = Inl (Error ''No codec could be found.'')"
proof -
  have k: "resolveKeys exampleEnv (Some ''notes'') (Some ''application/x-unknown'') False
      = (None, None, Some ''application/x-unknown'')"
    by (simp add: example_defs)
  have f: "tryImport exampleEnv (moduleName None) None = None"
    by (simp add: example_defs)
  have u: "tryImport exampleEnv ''undefined'' None = None"
    by (simp add: example_defs)
  have n: "\<forall>name\<in>set codecList. \<forall>c. tryImport exampleEnv name None = Some c \<longrightarrow>
          \<not> codecMatches c None None (Some ''application/x-unknown'') (Some ''notes'')"
    by (simp add: exampleEnv_def tryImport_def codecList_def codecMatches_def declares_def
          truthy_def mdCodec_def jatsCodec_def jatsSniff_def)
  show ?thesis
    using k f u n
      match_no_codec_error [of exampleEnv "Some ''notes''" "Some ''application/x-unknown''" False
        None None "Some ''application/x-unknown''"]
      match_no_codec_error [of exampleEnv None None False None None None]
    by (simp add: truthy_def)
qed

text \<open>
  C9 (options of \<open>encode\<close>). An option counts as provided when it is a non-empty string,
  which is what the test \<open>!(filePath || format)\<close> of the source takes it to be.
  \<open>encode\<close> fails with its own error exactly when neither option is provided; otherwise
  its result is that of matching (as an output) followed by the \<open>encode\<close> of the codec
  found. The hypothesis sets aside a codec whose own \<open>encode\<close> raises an error with the
  very same message.
\<close>

theorem encode_option_precondition:
  assumes "\<And>codec. match e (filePath opts) (format opts) True = Inr codec \<Longrightarrow>
             codec_encode codec node opts
               \<noteq> Inl (Error ''At least one of \"filePath\" or \"format\" option must be provided'')"
  shows "(encode e node opts
            = Inl (Error ''At least one of \"filePath\" or \"format\" option must be provided'')
          \<longleftrightarrow> \<not> truthy (filePath opts) \<and> \<not> truthy (format opts))
         \<and> (truthy (filePath opts) \<or> truthy (format opts) \<longrightarrow>
              encode e node opts =
                (case match e (filePath opts) (format opts) True of
                   Inl err \<Rightarrow> Inl err
                 | Inr codec \<Rightarrow> codec_encode codec node opts))"
proof -
  have "match e (filePath opts) (format opts) True
          \<noteq> Inl (Error ''At least one of \"filePath\" or \"format\" option must be provided'')"
    using match_error_message [of e "filePath opts" "format opts" True]
      noCodecMessage_neq_optionMissing [of "filePath opts" "format opts"]
    by (auto simp: optionMissingMessage_def)
  then show ?thesis
    using assms by (auto simp: encode_def optionMissingMessage_def split: sum.splits)
qed

theorem encode_option_precondition_witness:
  "match exampleEnv None (Some ''md'') True = Inr mdCodec
   \<and> truthy (Some ''md'')
   \<and> encode exampleEnv () \<lparr>filePath = None, format = Some ''md''\<rparr>
        \<noteq> Inl (Error ''At least one of \"filePath\" or \"format\" option must be provided'')
   \<and> encode exampleEnv () \<lparr>filePath = None, format = Some ''md''\<rparr>
        = (case match exampleEnv None (Some ''md'') True of
             Inl err \<Rightarrow> Inl err
           | Inr codec \<Rightarrow> codec_encode codec () \<lparr>filePath = None, format = Some ''md''\<rparr>)
   \<and> encode exampleEnv () \<lparr>filePath = None, format = None\<rparr>
        = Inl (Error ''At least one of \"filePath\" or \"format\" option must be provided'')"
proof -
  have m: "match exampleEnv None (Some ''md'') True = Inr mdCodec"
    by (simp add: example_defs)
  have h: "\<And>codec. match exampleEnv None (Some ''md'') True = Inr codec \<Longrightarrow>
       codec_encode codec () \<lparr>filePath = None, format = Some ''md''\<rparr>
         \<noteq> Inl (Error ''At least one of \"filePath\" or \"format\" option must be provided'')"
    using m by (auto simp: mdCodec_def)
  have h': "\<And>codec. match exampleEnv None None True = Inr codec \<Longrightarrow>
       codec_encode codec () \<lparr>filePath = None, format = None\<rparr>
         \<noteq> Inl (Error ''At least one of \"filePath\" or \"format\" option must be provided'')"
    by (simp add: example_defs)
  show ?thesis
    using h m
      encode_option_precondition [of exampleEnv "\<lparr>filePath = None, format = Some ''md''\<rparr>" "()", OF h]
      encode_option_precondition [of exampleEnv "\<lparr>filePath = None, format = None\<rparr>" "()", OF h']
    by (simp add: truthy_def)
qed

section \<open>Properties of the Markdown codec\<close>







lemma collect_append:
  "collect (rs @ ss) =
     (case collect rs of Inl err \<Rightarrow> Inl err
      | Inr xs \<Rightarrow> (case collect ss of Inl err \<Rightarrow> Inl err | Inr ys \<Rightarrow> Inr (xs @ ys)))"
proof (induction rs)
  case Nil
  then show ?case by (simp split: sum.splits)
next
  case (Cons r rs)
  then show ?case by (cases r) (auto split: sum.splits)
qed


lemmas exampleMd_defs =
  exampleMdEnv_def inlineExtension_def blockExtension_def decodeExtensionNode_def
  decodeBoolean_def decodeNumber_def decodeArray_def orElse_def


subsection \<open>Claims on the Markdown codec\<close>

text \<open>
  C10 (defaults of the primitive extensions). An extension named \<open>boolean\<close>,
  \<open>number\<close> or \<open>array\<close> with neither argument nor content is decoded to \<open>true\<close>,
  to \<open>parseFloat('0')\<close>, which is \<open>0\<close>, and to \<open>JSON5.parse('[]')\<close>, the empty array;
  with both an argument and content, the result is computed from the argument alone. The
  two hypotheses are the values of the JavaScript functions at \<open>'0'\<close> and \<open>'[]'\<close>.
\<close>

theorem primitive_extension_defaults:
  assumes "parseFloat e ''0'' = Finite 0" and "json5Parse e ''[]'' = Inr (Array [])"
  shows "decodeNode e (MExtension \<lparr> ext_type = t, ext_name = ''boolean'', ext_content = None,
                                    ext_argument = None, ext_properties = p \<rparr>)
           = Inr (Boolean True)
       \<and> decodeNode e (MExtension \<lparr> ext_type = t, ext_name = ''number'', ext_content = None,
                                    ext_argument = None, ext_properties = p \<rparr>)
           = Inr (Number (Finite 0))
       \<and> decodeNode e (MExtension \<lparr> ext_type = t, ext_name = ''array'', ext_content = None,
                                    ext_argument = None, ext_properties = p \<rparr>)
           = Inr (Array [])
       \<and> decodeNode e (MExtension \<lparr> ext_type = t, ext_name = ''boolean'', ext_content = Some c,
                                    ext_argument = Some a, ext_properties = p \<rparr>)
           = Inr (Boolean (a = ''true'' \<or> a = ''1''))
       \<and> decodeNode e (MExtension \<lparr> ext_type = t, ext_name = ''number'', ext_content = Some c,
                                    ext_argument = Some a, ext_properties = p \<rparr>)
           = Inr (Number (parseFloat e a))
       \<and> decodeNode e (MExtension \<lparr> ext_type = t, ext_name = ''array'', ext_content = Some c,
                                    ext_argument = Some a, ext_properties = p \<rparr>)
           = json5Parse e (''['' @ a @ '']'')"
  using assms
  by (simp add: decodeExtensionNode_def decodeBoolean_def decodeNumber_def decodeArray_def
        orElse_def)

theorem primitive_extension_defaults_witness:
  "parseFloat exampleMdEnv ''0'' = Finite 0
   \<and> json5Parse exampleMdEnv ''[]'' = Inr (Array [])
   \<and> decodeNode exampleMdEnv (inlineExtension ''boolean'' None None) = Inr (Boolean True)
   \<and> decodeNode exampleMdEnv (inlineExtension ''number'' None None) = Inr (Number (Finite 0))
   \<and> decodeNode exampleMdEnv (inlineExtension ''array'' None None) = Inr (Array [])
   \<and> decodeNode exampleMdEnv (inlineExtension ''boolean'' (Some ''true'') (Some ''0''))
       = Inr (Boolean False)
   \<and> decodeNode exampleMdEnv (inlineExtension ''number'' (Some ''0'') (Some ''3.14''))
       = Inr (Number (Finite (314 / 100)))
   \<and> decodeNode exampleMdEnv (inlineExtension ''array'' (Some ''3'') (Some ''1, 2''))
       = Inr (Array [Number (Finite 1), Number (Finite 2)])"
proof -
  have h1: "parseFloat exampleMdEnv ''0'' = Finite 0" by (simp add: exampleMdEnv_def)
  have h2: "json5Parse exampleMdEnv ''[]'' = Inr (Array [])" by (simp add: exampleMdEnv_def)
  show ?thesis
    using h1 h2
      primitive_extension_defaults [OF h1 h2, of InlineExtension None "''true''" "''0''"]
      primitive_extension_defaults [OF h1 h2, of InlineExtension None "''0''" "''3.14''"]
      primitive_extension_defaults [OF h1 h2, of InlineExtension None "''3''" "''1, 2''"]
    by (simp add: inlineExtension_def exampleMdEnv_def)
qed





lemma decodeChildren_titled:
  assumes "title \<noteq> None" and "\<forall>c\<in>set children. \<not> isYaml c"
  shows "decodeChildren e title meta content' children
         = andThen (collect (map (decodeNode e) children))
             (\<lambda>nodes. Inr (title, meta, content' @ nodes))"
  using assms
proof (induction children arbitrary: content')
  case Nil
  then show ?case by (simp add: andThen_def)
next
  case (Cons child rest)
  have ny: "\<not> isYaml child" and rest: "\<forall>c\<in>set rest. \<not> isYaml c"
    using Cons.prems by auto
  show ?case
  proof (cases "decodeNode e child")
    case (Inl err)
    then show ?thesis
      using ny Cons.prems(1) by (cases child) (auto simp: andThen_def isYaml_def)
  next
    case (Inr node)
    have "decodeChildren e title meta content' (child # rest)
          = decodeChildren e title meta (content' @ [node]) rest"
      using ny Cons.prems(1) Inr by (cases child) (auto simp: andThen_def isYaml_def)
    also have "\<dots> = andThen (collect (map (decodeNode e) rest))
             (\<lambda>nodes. Inr (title, meta, (content' @ [node]) @ nodes))"
      using Cons.IH [OF Cons.prems(1) rest] .
    finally show ?thesis
      using Inr by (auto simp: andThen_def split: sum.splits)
  qed
qed

lemma decodeChildren_heading:
  assumes "collect (map (decodeNode e) children) = Inr hs"
  shows "decodeChildren e None meta content' (MHeading 1 children # rest)
         = decodeChildren e (Some (headingTitle hs)) meta content' rest"
  using assms by (simp add: andThen_def headingTitle_def)

lemma decodeChildren_yaml:
  assumes "safeLoad e value = Inr frontmatter"
  shows "decodeChildren e title meta content' (MYaml value # rest)
         = decodeChildren e
             (case map_of frontmatter ''title'' of None \<Rightarrow> title | Some t \<Rightarrow> Some t)
             (Some frontmatter) content' rest"
  using assms by (simp add: andThen_def)

text \<open>
  C3 (title of a decoded article), as amended. Front matter goes first in the document,
  and the rest holds no further front matter. When the front matter has a \<open>title\<close>, the
  title of the article is that title and every other node, a leading level-1 heading
  included, is decoded into the content. The inline content of a leading level-1 heading
  becomes the title, and the heading is left out of the content, only when no title has
  been set: the front matter has no \<open>title\<close>, or there is no front matter.
\<close>

theorem title_from_front_matter_or_heading:
  "(safeLoad e value = Inr frontmatter \<and> map_of frontmatter ''title'' = Some t
      \<and> (\<forall>c\<in>set rest. \<not> isYaml c)
      \<and> collect (map (decodeNode e) children) = Inr hs
      \<and> collect (map (decodeNode e) rest) = Inr nodes
    \<longrightarrow> decodeArticle e (MRoot (MYaml value # MHeading 1 children # rest))
          = Inr (Article ((''title'', t)
                          # filter (\<lambda>(key, v). key \<notin> {''title'', ''content'', ''type''}) frontmatter)
                   (Some (Heading 1 hs # nodes))))
   \<and> (safeLoad e value = Inr frontmatter \<and> map_of frontmatter ''title'' = Some t
      \<and> (\<forall>c\<in>set rest. \<not> isYaml c)
      \<and> collect (map (decodeNode e) rest) = Inr nodes
    \<longrightarrow> decodeArticle e (MRoot (MYaml value # rest))
          = Inr (Article ((''title'', t)
                          # filter (\<lambda>(key, v). key \<notin> {''title'', ''content'', ''type''}) frontmatter)
                   (Some nodes)))
   \<and> (safeLoad e value = Inr frontmatter \<and> map_of frontmatter ''title'' = None
      \<and> (\<forall>c\<in>set rest. \<not> isYaml c)
      \<and> collect (map (decodeNode e) children) = Inr hs
      \<and> collect (map (decodeNode e) rest) = Inr nodes
    \<longrightarrow> decodeArticle e (MRoot (MYaml value # MHeading 1 children # rest))
          = Inr (Article ((''title'', headingTitle hs)
                          # filter (\<lambda>(key, v). key \<notin> {''title'', ''content'', ''type''}) frontmatter)
                   (Some nodes)))
   \<and> ((\<forall>c\<in>set rest. \<not> isYaml c)
      \<and> collect (map (decodeNode e) children) = Inr hs
      \<and> collect (map (decodeNode e) rest) = Inr nodes
    \<longrightarrow> decodeArticle e (MRoot (MHeading 1 children # rest))
          = Inr (Article [(''title'', headingTitle hs)] (Some nodes)))"
proof (intro conjI impI)
  assume h: "safeLoad e value = Inr frontmatter \<and> map_of frontmatter ''title'' = Some t
      \<and> (\<forall>c\<in>set rest. \<not> isYaml c)
      \<and> collect (map (decodeNode e) rest) = Inr nodes"
  then have "decodeChildren e None None [] (MYaml value # rest)
             = decodeChildren e (Some t) (Some frontmatter) [] rest"
    by (simp add: andThen_def)
  also have "\<dots> = Inr (Some t, Some frontmatter, nodes)"
    using h by (simp add: decodeChildren_titled andThen_def)
  finally show "decodeArticle e (MRoot (MYaml value # rest))
          = Inr (Article ((''title'', t)
                          # filter (\<lambda>(key, v). key \<notin> {''title'', ''content'', ''type''}) frontmatter)
                   (Some nodes))"
    using h by (simp add: decodeArticle_def andThen_def articleProps_def)
next
  assume h: "safeLoad e value = Inr frontmatter \<and> map_of frontmatter ''title'' = Some t
      \<and> (\<forall>c\<in>set rest. \<not> isYaml c)
      \<and> collect (map (decodeNode e) children) = Inr hs
      \<and> collect (map (decodeNode e) rest) = Inr nodes"
  then have "decodeChildren e None None [] (MYaml value # MHeading 1 children # rest)
             = decodeChildren e (Some t) (Some frontmatter) [] (MHeading 1 children # rest)"
    by (simp add: andThen_def)
  also have "\<dots> = Inr (Some t, Some frontmatter, Heading 1 hs # nodes)"
    using h by (subst decodeChildren_titled) (auto simp: andThen_def mapResult_def isYaml_def)
  finally show "decodeArticle e (MRoot (MYaml value # MHeading 1 children # rest))
          = Inr (Article ((''title'', t)
                          # filter (\<lambda>(key, v). key \<notin> {''title'', ''content'', ''type''}) frontmatter)
                   (Some (Heading 1 hs # nodes)))"
    using h by (simp add: decodeArticle_def andThen_def articleProps_def)
next
  assume h: "safeLoad e value = Inr frontmatter \<and> map_of frontmatter ''title'' = None
      \<and> (\<forall>c\<in>set rest. \<not> isYaml c)
      \<and> collect (map (decodeNode e) children) = Inr hs
      \<and> collect (map (decodeNode e) rest) = Inr nodes"
  then have "decodeChildren e None None [] (MYaml value # MHeading 1 children # rest)
             = decodeChildren e None (Some frontmatter) [] (MHeading 1 children # rest)"
    by (simp add: andThen_def)
  also have "\<dots> = decodeChildren e (Some (headingTitle hs)) (Some frontmatter) [] rest"
    using h by (simp add: andThen_def headingTitle_def)
  also have "\<dots> = Inr (Some (headingTitle hs), Some frontmatter, nodes)"
    using h by (simp add: decodeChildren_titled andThen_def)
  finally show "decodeArticle e (MRoot (MYaml value # MHeading 1 children # rest))
          = Inr (Article ((''title'', headingTitle hs)
                          # filter (\<lambda>(key, v). key \<notin> {''title'', ''content'', ''type''}) frontmatter)
                   (Some nodes))"
    using h by (simp add: decodeArticle_def andThen_def articleProps_def)
next
  assume h: "(\<forall>c\<in>set rest. \<not> isYaml c)
      \<and> collect (map (decodeNode e) children) = Inr hs
      \<and> collect (map (decodeNode e) rest) = Inr nodes"
  then have "decodeChildren e None None [] (MHeading 1 children # rest)
             = decodeChildren e (Some (headingTitle hs)) None [] rest"
    by (simp add: andThen_def headingTitle_def)
  also have "\<dots> = Inr (Some (headingTitle hs), None, nodes)"
    using h by (simp add: decodeChildren_titled andThen_def)
  finally show "decodeArticle e (MRoot (MHeading 1 children # rest))
          = Inr (Article [(''title'', headingTitle hs)] (Some nodes))"
    by (simp add: decodeArticle_def andThen_def articleProps_def)
qed


lemmas decode_example_defs =
  exampleMdEnv_def decodeArticle_def andThen_def mapResult_def articleProps_def decodeText_def
  collapseWhiteSpace_def isSpace_def headingTitle_def isYaml_def

theorem title_from_front_matter_or_heading_witness:
  "decodeArticle exampleMdEnv
     (MRoot [MYaml ''title: Front'', MHeading 1 [MText ''Heading''], MParagraph [MText ''Body'']])
     = Inr (Article [(''title'', Str ''Front'')]
              (Some [Heading 1 [Str ''Heading''], Paragraph [Str ''Body'']]))
   \<and> decodeArticle exampleMdEnv (MRoot [MYaml ''title: Front'', MParagraph [MText ''Body'']])
     = Inr (Article [(''title'', Str ''Front'')] (Some [Paragraph [Str ''Body'']]))
   \<and> decodeArticle exampleMdEnv
     (MRoot [MYaml ''author: Ann'', MHeading 1 [MText ''Heading''], MParagraph [MText ''Body'']])
     = Inr (Article [(''title'', Str ''Heading''), (''author'', Str ''Ann'')]
              (Some [Paragraph [Str ''Body'']]))
   \<and> decodeArticle exampleMdEnv (MRoot [MHeading 1 [MText ''Heading''], MParagraph [MText ''Body'']])
     = Inr (Article [(''title'', Str ''Heading'')] (Some [Paragraph [Str ''Body'']]))"
proof -
  have y1: "safeLoad exampleMdEnv ''title: Front'' = Inr [(''title'', Str ''Front'')]"
    and y2: "safeLoad exampleMdEnv ''author: Ann'' = Inr [(''author'', Str ''Ann'')]"
    by (simp_all add: exampleMdEnv_def)
  have r: "\<forall>c\<in>set [MParagraph [MText ''Body'']]. \<not> isYaml c"
    by (simp add: isYaml_def)
  have h: "collect (map (decodeNode exampleMdEnv) [MText ''Heading'']) = Inr [Str ''Heading'']"
    by (simp add: decodeText_def collapseWhiteSpace_def isSpace_def)
  have b: "collect (map (decodeNode exampleMdEnv) [MParagraph [MText ''Body'']])
           = Inr [Paragraph [Str ''Body'']]"
    by (simp add: decodeText_def collapseWhiteSpace_def isSpace_def mapResult_def)
  show ?thesis
    using y1 y2 r h b
      title_from_front_matter_or_heading
        [of exampleMdEnv "''title: Front''" "[(''title'', Str ''Front'')]" "Str ''Front''"
            "[MParagraph [MText ''Body'']]" "[MText ''Heading'']" "[Str ''Heading'']"
            "[Paragraph [Str ''Body'']]"]
      title_from_front_matter_or_heading
        [of exampleMdEnv "''author: Ann''" "[(''author'', Str ''Ann'')]" "Str ''Front''"
            "[MParagraph [MText ''Body'']]" "[MText ''Heading'']" "[Str ''Heading'']"
            "[Paragraph [Str ''Body'']]"]
    by (simp add: headingTitle_def)
qed

text \<open>
  The claim C3 as first stated fails on a document with the front matter
  \<open>title: Front\<close>, the heading \<open># Heading\<close> and a paragraph: the title is \<open>Front\<close>
  and the heading is the first node of the content.
\<close>

theorem front_matter_title_beats_heading:
  "decodeArticle exampleMdEnv
     (MRoot [MYaml ''title: Front'', MHeading 1 [MText ''Heading''], MParagraph [MText ''Body'']])
     = Inr (Article [(''title'', Str ''Front'')]
              (Some [Heading 1 [Str ''Heading''], Paragraph [Str ''Body'']]))
   \<and> decodeArticle exampleMdEnv
     (MRoot [MYaml ''title: Front'', MHeading 1 [MText ''Heading''], MParagraph [MText ''Body'']])
     \<noteq> Inr (Article [(''title'', Str ''Heading'')] (Some [Paragraph [Str ''Body'']]))"
  by (simp add: decode_example_defs)

























lemma collect_Inr_append:
  "collect rs = Inr xs \<Longrightarrow> collect ss = Inr ys \<Longrightarrow> collect (rs @ ss) = Inr (xs @ ys)"
  by (simp add: collect_append)




section \<open>Properties of the JATS encoder\<close>

subsection \<open>Filling the citation elements\<close>


lemma populateElement_filled: "populateElement t (xrefWith rid (Some u)) = xrefWith rid (Some u)"
  by (simp add: populateElement_def xrefWith_def)

lemma length_fold_populateAt: "length (fold (populateAt t) xrefs h) = length h"
  by (induction xrefs arbitrary: h) (simp_all add: populateAt_def)

lemma populateElement_idem: "populateElement t (populateElement t x) = populateElement t x"
  by (cases x) (auto simp: populateElement_def Let_def split: option.splits)

lemma nth_fold_populateAt:
  "a < length h \<Longrightarrow>
   fold (populateAt t) xrefs h ! a = (if a \<in> set xrefs then populateElement t (h ! a) else h ! a)"
proof (induction xrefs arbitrary: h)
  case Nil
  then show ?case by simp
next
  case (Cons x xrefs)
  have len: "a < length (populateAt t x h)"
    using Cons.prems by (simp add: populateAt_def)
  have step: "populateAt t x h ! a = (if a = x then populateElement t (h ! a) else h ! a)"
    using Cons.prems by (auto simp: populateAt_def)
  show ?case
    using Cons.IH [OF len] step by (auto simp: populateElement_idem)
qed


text \<open>Filling again under an id that has its text already changes nothing.\<close>

lemma fold_populateAt_filled:
  assumes "\<forall>a\<in>set xrefs. a < length rids \<longrightarrow> rids ! a = rid"
      and "refs rid = Some t"
  shows "fold (populateAt t) xrefs (map (\<lambda>q. xrefWith q (refs q)) rids)
         = map (\<lambda>q. xrefWith q (refs q)) rids"
proof (rule nth_equalityI)
  show "length (fold (populateAt t) xrefs (map (\<lambda>q. xrefWith q (refs q)) rids))
        = length (map (\<lambda>q. xrefWith q (refs q)) rids)"
    by (simp add: length_fold_populateAt)
next
  fix a
  assume "a < length (fold (populateAt t) xrefs (map (\<lambda>q. xrefWith q (refs q)) rids))"
  then have a: "a < length rids" by (simp add: length_fold_populateAt)
  then show "fold (populateAt t) xrefs (map (\<lambda>q. xrefWith q (refs q)) rids) ! a
             = map (\<lambda>q. xrefWith q (refs q)) rids ! a"
    using assms by (auto simp: nth_fold_populateAt populateElement_filled)
qed





subsection \<open>Simulation of the encoder by the rendering\<close>




lemma simulated_tables: "simulated rids s r g \<Longrightarrow> snd (g texts) = tables (snd r)"
  by (auto simp: simulated_def)










subsection \<open>The references\<close>











subsection \<open>The body\<close>




subsection \<open>Citations and the references\<close>




end
